theory Spec2Isabelle
  imports Complex_Main "HOL-Library.Word"
begin

section \<open>JavaScript values\<close>

text \<open>
  A JavaScript string is a sequence of UTF-16 code units, and \<open>length\<close> counts code
  units, so a string is a list of 16-bit words. String literals of the source are ASCII
  and are written \<open>js ''...''\<close>.
\<close>

type_synonym cu = "16 word"
type_synonym jsstring = "cu list"

definition js :: "string \<Rightarrow> jsstring" where
  "js s = map (\<lambda>c. of_nat (of_char c)) s"

text \<open>
  The code units that \<open>String.prototype.trim\<close>, \<open>parseInt\<close> and the regular
  expression class \<open>\s\<close> treat as white space: the ECMAScript WhiteSpace and
  LineTerminator productions.
\<close>

definition isWhiteSpace :: "cu \<Rightarrow> bool" where
  "isWhiteSpace c \<longleftrightarrow>
     c = 0x0009 \<or> c = 0x000A \<or> c = 0x000B \<or> c = 0x000C \<or> c = 0x000D \<or> c = 0x0020
     \<or> c = 0x00A0 \<or> c = 0x1680 \<or> (0x2000 \<le> c \<and> c \<le> 0x200A) \<or> c = 0x2028
     \<or> c = 0x2029 \<or> c = 0x202F \<or> c = 0x205F \<or> c = 0x3000 \<or> c = 0xFEFF"

definition trim :: "jsstring \<Rightarrow> jsstring" where
  "trim s = rev (dropWhile isWhiteSpace (rev (dropWhile isWhiteSpace s)))"

text \<open>Decimal rendering of a non-negative integer, as string concatenation and template
  literals produce it.\<close>

definition digitChar :: "nat \<Rightarrow> char" where
  "digitChar d = ''0123456789'' ! d"

fun showNat :: "nat \<Rightarrow> string" where
  "showNat n = (if n < 10 then [digitChar n] else showNat (n div 10) @ [digitChar (n mod 10)])"

declare showNat.simps [simp del]

text \<open>
  Numbers. A JavaScript number is an IEEE double; the model keeps the finite values as
  rationals, next to NaN and the two infinities. The program only adds small integers,
  divides a sum by 12 and compares with 0, 2.5, 3, 3.5 and 4. On integers below \<open>2^53\<close>
  addition is exact; division is correctly rounded, hence monotone, and the constants
  it is compared with are doubles themselves, so each comparison of a rounded quotient
  with one of them has the outcome of the comparison of the exact quotient.
\<close>

datatype jsnum = NaN | Finite rat | PosInfinity | NegInfinity

fun num_add :: "jsnum \<Rightarrow> jsnum \<Rightarrow> jsnum" where
  "num_add NaN _ = NaN"
| "num_add _ NaN = NaN"
| "num_add (Finite a) (Finite b) = Finite (a + b)"
| "num_add PosInfinity NegInfinity = NaN"
| "num_add NegInfinity PosInfinity = NaN"
| "num_add PosInfinity _ = PosInfinity"
| "num_add _ PosInfinity = PosInfinity"
| "num_add NegInfinity _ = NegInfinity"
| "num_add _ NegInfinity = NegInfinity"

text \<open>Division by a positive integer constant (the only division of the program).\<close>

fun num_div_nat :: "jsnum \<Rightarrow> nat \<Rightarrow> jsnum" where
  "num_div_nat (Finite a) n = Finite (a / of_nat n)"
| "num_div_nat x n = x"

text \<open>The comparisons \<open>x >= c\<close>, \<open>x < c\<close> and \<open>x > c\<close> with a finite constant; every
  comparison with NaN is false.\<close>

fun num_ge :: "jsnum \<Rightarrow> rat \<Rightarrow> bool" where
  "num_ge (Finite a) c = (a \<ge> c)"
| "num_ge PosInfinity c = True"
| "num_ge _ c = False"

fun num_lt :: "jsnum \<Rightarrow> rat \<Rightarrow> bool" where
  "num_lt (Finite a) c = (a < c)"
| "num_lt NegInfinity c = True"
| "num_lt _ c = False"

fun num_gt :: "jsnum \<Rightarrow> rat \<Rightarrow> bool" where
  "num_gt (Finite a) c = (a > c)"
| "num_gt PosInfinity c = True"
| "num_gt _ c = False"

text \<open>
  \<open>parseInt(string)\<close> without a radix: leading white space is skipped, a sign is read,
  a \<open>0x\<close>/\<open>0X\<close> prefix selects radix 16, and the longest prefix of digits is
  converted; no digit gives NaN. (The value is kept exact; a double rounds it from
  \<open>2^53\<close> on.)
\<close>

definition digitValue :: "cu \<Rightarrow> nat option" where
  "digitValue c =
     (if 0x30 \<le> c \<and> c \<le> 0x39 then Some (unat c - 0x30)
      else if 0x61 \<le> c \<and> c \<le> 0x7A then Some (unat c - 0x61 + 10)
      else if 0x41 \<le> c \<and> c \<le> 0x5A then Some (unat c - 0x41 + 10)
      else None)"

definition isRadixDigit :: "nat \<Rightarrow> cu \<Rightarrow> bool" where
  "isRadixDigit radix c = (case digitValue c of None \<Rightarrow> False | Some d \<Rightarrow> d < radix)"

definition digitsValue :: "nat \<Rightarrow> jsstring \<Rightarrow> nat" where
  "digitsValue radix ds = foldl (\<lambda>acc c. acc * radix + (case digitValue c of None \<Rightarrow> 0 | Some d \<Rightarrow> d)) 0 ds"

definition parseInt :: "jsstring \<Rightarrow> jsnum" where
  "parseInt s =
     (let s1 = dropWhile isWhiteSpace s;
          neg = (take 1 s1 = js ''-'');
          s2 = (if take 1 s1 = js ''-'' \<or> take 1 s1 = js ''+'' then drop 1 s1 else s1);
          hex = (take 2 s2 = js ''0x'' \<or> take 2 s2 = js ''0X'');
          radix = (if hex then 16 else 10);
          s3 = (if hex then drop 2 s2 else s2);
          ds = takeWhile (isRadixDigit radix) s3
      in if ds = [] then NaN
         else Finite ((if neg then - 1 else 1) * of_nat (digitsValue radix ds)))"

text \<open>Truthiness of a string: only the empty string is falsy.\<close>

definition truthyStr :: "jsstring \<Rightarrow> bool" where
  "truthyStr s \<longleftrightarrow> s \<noteq> []"

section \<open>Client script: \<open>calculateScore\<close> (script.js)\<close>

text \<open>
  \<open>form.elements[name]\<close>: \<open>None\<close> when the form has no control of that name
  (\<open>undefined\<close>), otherwise the control's \<open>value\<close>, which is the empty string while
  no radio button of the group is checked.
\<close>

type_synonym form = "string \<Rightarrow> jsstring option"

record results_container =
  innerHTML :: jsstring
  backgroundColor :: jsstring
  color :: jsstring

definition questionsCount :: nat where
  "questionsCount = 12"

definition questionName :: "nat \<Rightarrow> string" where
  "questionName i = ''q'' @ showNat i"

text \<open>The \<open>for\<close> loop of lines 69 to 76; the state is \<open>(totalScore, answeredQuestions)\<close>.\<close>

function scoreLoop :: "form \<Rightarrow> nat \<Rightarrow> jsnum \<times> nat \<Rightarrow> jsnum \<times> nat" where
  "scoreLoop form i (totalScore, answeredQuestions) =
     (if i \<le> questionsCount then
        (case form (questionName i) of
           None \<Rightarrow> scoreLoop form (i + 1) (totalScore, answeredQuestions)
         | Some v \<Rightarrow>
             if truthyStr v
             then scoreLoop form (i + 1) (num_add totalScore (parseInt v), answeredQuestions + 1)
             else scoreLoop form (i + 1) (totalScore, answeredQuestions))
      else (totalScore, answeredQuestions))"
  by pat_completeness auto
termination
  by (relation "measure (\<lambda>(form, i, s). questionsCount + 1 - i)") auto

declare scoreLoop.simps [simp del]

text \<open>The band chosen by the \<open>if\<close> chain of lines 89 to 109, with its advice and colours.\<close>

record category =
  mentalHealthState :: jsstring
  advice :: jsstring
  catBackground :: jsstring
  catColor :: jsstring

definition categorize :: "jsnum \<Rightarrow> category" where
  "categorize averageScore =
     (if num_ge averageScore (7 / 2) then
        \<lparr>mentalHealthState = js ''Healthy'',
         advice = js ''You seem to be in a good mental state. Keep maintaining your healthy habits, stay connected with others, and continue to prioritize your well-being.'',
         catBackground = js ''#d4edda'', catColor = js ''#155724''\<rparr>
      else if num_ge averageScore 3 then
        \<lparr>mentalHealthState = js ''Mild Concerns'',
         advice = js ''You may be experiencing some minor stress or emotional challenges. It's a good time to focus on self-care, such as exercise, nutrition, and mindfulness. Talking to a friend or family member may also be helpful.'',
         catBackground = js ''#fff3cd'', catColor = js ''#856404''\<rparr>
      else if num_ge averageScore (5 / 2) then
        \<lparr>mentalHealthState = js ''Moderate Concerns'',
         advice = js ''Your responses suggest you are facing notable mental health challenges. It is highly recommended to speak with a trusted individual. Exploring resources on our site or contacting a professional could provide significant support.'',
         catBackground = js ''#f8d7da'', catColor = js ''#721c24''\<rparr>
      else
        \<lparr>mentalHealthState = js ''Severe Concerns'',
         advice = js ''It appears you are going through a difficult time. Please prioritize your mental health and seek professional help. You are not alone, and support is available. Please visit our <a href=\"Contact.html\">Contact</a> page to find a professional near you.'',
         catBackground = js ''#dc3545'', catColor = js ''white''\<rparr>)"

text \<open>The template literal of lines 111 to 114.\<close>

definition resultHtml :: "category \<Rightarrow> jsstring" where
  "resultHtml c =
     js [CHR 0x0A] @ js ''        <h3>Your Result: '' @ mentalHealthState c @ js ''</h3>''
     @ js [CHR 0x0A] @ js ''        <p>'' @ advice c @ js ''</p>''
     @ js [CHR 0x0A] @ js ''    ''"

definition warningContainer :: results_container where
  "warningContainer =
     \<lparr>innerHTML = js ''<h3>Please answer all questions to see your score.</h3>'',
      backgroundColor = js ''#ffc107'', color = js ''#333''\<rparr>"

text \<open>
  \<open>calculateScore\<close> returns what it leaves in the results container and the score it
  posts to \<open>/api/score\<close> (\<open>None\<close>: no request is made). The outcome of that request is
  ignored by the script.
\<close>

definition calculateScore :: "form \<Rightarrow> results_container \<times> jsnum option" where
  "calculateScore form =
     (let (totalScore, answeredQuestions) = scoreLoop form 1 (Finite 0, 0)
      in if answeredQuestions < questionsCount then (warningContainer, None)
         else
           (let averageScore = num_div_nat totalScore questionsCount;
                c = categorize averageScore
            in (\<lparr>innerHTML = resultHtml c, backgroundColor = catBackground c,
                 color = catColor c\<rparr>, Some averageScore)))"

section \<open>Server: request values (server.js)\<close>

text \<open>
  A parsed request body holds JSON values. A property that is absent reads as
  \<open>undefined\<close>, which is \<open>None\<close> below: \<open>data.name\<close> is \<open>data ''name''\<close>.
\<close>

datatype json =
    JNull
  | JBool bool
  | JNum jsnum
  | JStr jsstring
  | JArr "json list"
  | JObj "(string \<times> json) list"

type_synonym body = "string \<Rightarrow> json option"

text \<open>Truthiness (\<open>!x\<close>, \<open>x && ...\<close>, \<open>x ? a : b\<close>, \<open>x || d\<close>).\<close>

fun truthy :: "json option \<Rightarrow> bool" where
  "truthy None = False"
| "truthy (Some JNull) = False"
| "truthy (Some (JBool b)) = b"
| "truthy (Some (JNum n)) = (n \<noteq> Finite 0 \<and> n \<noteq> NaN)"
| "truthy (Some (JStr s)) = (s \<noteq> [])"
| "truthy (Some (JArr xs)) = True"
| "truthy (Some (JObj fs)) = True"

text \<open>The exception a handler can raise: a method call on a value that has no such method.\<close>

datatype exn = TypeError

text \<open>\<open>process.env.X || d\<close> on an environment variable.\<close>

definition envOr :: "jsstring option \<Rightarrow> jsstring \<Rightarrow> jsstring" where
  "envOr v d = (case v of None \<Rightarrow> d | Some s \<Rightarrow> if s = [] then d else s)"

definition truthyEnv :: "jsstring option \<Rightarrow> bool" where
  "truthyEnv v = (case v of None \<Rightarrow> False | Some s \<Rightarrow> s \<noteq> [])"


fun joinWith :: "jsstring \<Rightarrow> jsstring list \<Rightarrow> jsstring" where
  "joinWith sep [] = []"
| "joinWith sep [p] = p"
| "joinWith sep (p # q # ps) = p @ sep @ joinWith sep (q # ps)"

definition startsWith :: "jsstring \<Rightarrow> jsstring \<Rightarrow> bool" where
  "startsWith s p \<longleftrightarrow> take (length p) s = p"

section \<open>Validation functions\<close>

text \<open>
  The regular expression of \<open>isValidEmail\<close> is a sequence of literals and of character
  classes repeated one or more times, anchored at both ends; \<open>rxMatch\<close> decides whether
  the whole string matches such a sequence.
\<close>

datatype rx_item = Lit cu | Many1 "cu \<Rightarrow> bool"

fun rxMatch :: "rx_item list \<Rightarrow> jsstring \<Rightarrow> bool" where
  "rxMatch [] s = (s = [])"
| "rxMatch (Lit c # ps) [] = False"
| "rxMatch (Lit c # ps) (x # xs) = (x = c \<and> rxMatch ps xs)"
| "rxMatch (Many1 P # ps) [] = False"
| "rxMatch (Many1 P # ps) (x # xs) = (P x \<and> (rxMatch ps xs \<or> rxMatch (Many1 P # ps) xs))"

text \<open>The class \<open>[^\s@]\<close>.\<close>

definition notSpaceAt :: "cu \<Rightarrow> bool" where
  "notSpaceAt c \<longleftrightarrow> \<not> isWhiteSpace c \<and> c \<noteq> 0x40"

definition emailRegex :: "rx_item list" where
  "emailRegex = [Many1 notSpaceAt, Lit 0x40, Many1 notSpaceAt, Lit 0x2E, Many1 notSpaceAt]"

definition isValidEmail :: "jsstring \<Rightarrow> bool" where
  "isValidEmail email = rxMatch emailRegex email"

text \<open>The result object of \<open>validateStringField\<close>: \<open>{valid: false, error}\<close> or
  \<open>{valid: true, value}\<close>.\<close>

datatype field_result = FieldError jsstring | FieldOk jsstring

definition validateStringField :: "json option \<Rightarrow> jsstring \<Rightarrow> nat \<Rightarrow> nat \<Rightarrow> field_result" where
  "validateStringField v fieldName minLength maxLength =
     (case v of
        Some (JStr s) \<Rightarrow>
          (let trimmed = trim s
           in if length trimmed < minLength then
                FieldError (fieldName @ js '' is required (minimum '' @ js (showNat minLength)
                            @ js '' character).'')
              else if length trimmed > maxLength then
                FieldError (fieldName @ js '' exceeds maximum length of ''
                            @ js (showNat maxLength) @ js '' characters.'')
              else FieldOk trimmed)
      | _ \<Rightarrow> FieldError (fieldName @ js '' must be a string.''))"

definition fieldErrors :: "field_result \<Rightarrow> jsstring list" where
  "fieldErrors r = (case r of FieldError e \<Rightarrow> [e] | FieldOk _ \<Rightarrow> [])"

text \<open>
  \<open>str.replace(/c/g, r)\<close> for one code unit \<open>c\<close> and a replacement \<open>r\<close> without
  \<open>$\<close> patterns: every occurrence of \<open>c\<close> is replaced, from left to right.
\<close>

definition replaceAll :: "cu \<Rightarrow> jsstring \<Rightarrow> jsstring \<Rightarrow> jsstring" where
  "replaceAll c r str = concat (map (\<lambda>x. if x = c then r else [x]) str)"

definition sanitizeHtml :: "jsstring \<Rightarrow> jsstring" where
  "sanitizeHtml str =
     replaceAll 0x27 (js ''&#x27;'')
       (replaceAll 0x22 (js ''&quot;'')
         (replaceAll 0x3E (js ''&gt;'')
           (replaceAll 0x3C (js ''&lt;'')
             (replaceAll 0x26 (js ''&amp;'') str))))"

datatype 'a validation = Invalid "jsstring list" | Valid 'a

record registration_data =
  rd_name :: jsstring
  rd_email :: jsstring
  rd_address :: jsstring
  rd_contact :: jsstring

text \<open>
  The email check of \<open>validateRegistration\<close> and \<open>validateContact\<close> (the same lines in
  both): the errors it pushes.
\<close>

definition emailErrors :: "json option \<Rightarrow> jsstring list" where
  "emailErrors email =
     (case email of
        Some (JStr e) \<Rightarrow>
          if e = [] then [js ''Email is required.'']
          else if \<not> isValidEmail (trim e) then [js ''Email format is invalid.'']
          else if length (trim e) > 255 then [js ''Email exceeds maximum length of 255 characters.'']
          else []
      | _ \<Rightarrow> [js ''Email is required.''])"

text \<open>
  \<open>x ? x.trim() : d\<close> on an optional field: a truthy value that is not a string has no
  \<open>trim\<close> method, and the call raises.
\<close>

definition trimOr :: "json option \<Rightarrow> 'a \<Rightarrow> (jsstring \<Rightarrow> 'a) \<Rightarrow> exn + 'a" where
  "trimOr v d f =
     (if truthy v then (case v of Some (JStr s) \<Rightarrow> Inr (f (trim s)) | _ \<Rightarrow> Inl TypeError)
      else Inr d)"

text \<open>The errors of an optional text field: \<open>x && typeof x === 'string' && x.trim().length > n\<close>.\<close>

definition tooLong :: "json option \<Rightarrow> nat \<Rightarrow> bool" where
  "tooLong v n = (case v of Some (JStr s) \<Rightarrow> s \<noteq> [] \<and> length (trim s) > n | _ \<Rightarrow> False)"

text \<open>
  In the validators below the errors are collected in the order of the source. Without
  errors the string fields have validated and the email is a string, so the last case of
  the final \<open>case\<close> is never taken; it stands for the \<open>undefined\<close> the source would
  read there.
\<close>

definition validateRegistration :: "body \<Rightarrow> exn + registration_data validation" where
  "validateRegistration data =
     (let nameValidation = validateStringField (data ''name'') (js ''Name'') 1 100;
          contactValidation = validateStringField (data ''contact'') (js ''Contact'') 1 20;
          errors = fieldErrors nameValidation
                   @ emailErrors (data ''email'')
                   @ fieldErrors contactValidation
                   @ (if tooLong (data ''address'') 500
                      then [js ''Address exceeds maximum length of 500 characters.''] else [])
      in if length errors > 0 then Inr (Invalid errors)
         else
           (case (nameValidation, data ''email'', contactValidation) of
              (FieldOk name, Some (JStr email), FieldOk contact) \<Rightarrow>
                (case trimOr (data ''address'') [] (\<lambda>a. a) of
                   Inl e \<Rightarrow> Inl e
                 | Inr address \<Rightarrow>
                     Inr (Valid \<lparr>rd_name = name, rd_email = trim email,
                                 rd_address = address, rd_contact = contact\<rparr>))
            | _ \<Rightarrow> Inl TypeError))"

record contact_data =
  cd_name :: jsstring
  cd_email :: jsstring
  cd_message :: jsstring

definition validateContact :: "body \<Rightarrow> exn + contact_data validation" where
  "validateContact data =
     (let nameValidation = validateStringField (data ''name'') (js ''Name'') 1 100;
          messageValidation = validateStringField (data ''message'') (js ''Message'') 10 5000;
          errors = fieldErrors nameValidation
                   @ emailErrors (data ''email'')
                   @ fieldErrors messageValidation
      in if length errors > 0 then Inr (Invalid errors)
         else
           (case (nameValidation, data ''email'', messageValidation) of
              (FieldOk name, Some (JStr email), FieldOk message) \<Rightarrow>
                Inr (Valid \<lparr>cd_name = name, cd_email = trim email, cd_message = message\<rparr>)
            | _ \<Rightarrow> Inl TypeError))"

record score_data =
  sd_score :: jsnum
  sd_details :: "jsstring option"

definition validateScore :: "body \<Rightarrow> exn + score_data validation" where
  "validateScore data =
     (let errors =
            (case data ''score'' of
               None \<Rightarrow> [js ''Score is required.'']
             | Some JNull \<Rightarrow> [js ''Score is required.'']
             | Some (JNum n) \<Rightarrow>
                 if num_lt n 0 \<or> num_gt n 4 then [js ''Score must be between 0 and 4.''] else []
             | Some _ \<Rightarrow> [js ''Score must be a number.''])
            @ (if tooLong (data ''details'') 1000
               then [js ''Details exceed maximum length of 1000 characters.''] else [])
      in if length errors > 0 then Inr (Invalid errors)
         else
           (case data ''score'' of
              Some (JNum n) \<Rightarrow>
                (case trimOr (data ''details'') None Some of
                   Inl e \<Rightarrow> Inl e
                 | Inr details \<Rightarrow> Inr (Valid \<lparr>sd_score = n, sd_details = details\<rparr>))
            | _ \<Rightarrow> Inl TypeError))"

record mail_data =
  md_to :: "jsstring list"
  md_subject :: jsstring
  md_body :: jsstring

text \<open>
  The loop over an array of recipients: \<open>email.trim()\<close> raises on an element that is not
  a string, an invalid address pushes an error.
\<close>

fun recipientErrors :: "json list \<Rightarrow> exn + jsstring list" where
  "recipientErrors [] = Inr []"
| "recipientErrors (JStr email # rest) =
     (case recipientErrors rest of
        Inl e \<Rightarrow> Inl e
      | Inr errs \<Rightarrow>
          Inr ((if \<not> isValidEmail (trim email) then [js ''Invalid email format: '' @ email]
                else []) @ errs))"
| "recipientErrors (_ # rest) = Inl TypeError"

text \<open>\<open>data.to.map(e => e.trim())\<close>.\<close>

fun mapTrim :: "json list \<Rightarrow> exn + jsstring list" where
  "mapTrim [] = Inr []"
| "mapTrim (JStr e # rest) =
     (case mapTrim rest of Inl x \<Rightarrow> Inl x | Inr ts \<Rightarrow> Inr (trim e # ts))"
| "mapTrim (_ # rest) = Inl TypeError"

definition recipientCheck :: "json option \<Rightarrow> exn + jsstring list" where
  "recipientCheck to =
     (if \<not> truthy to then Inr [js ''Recipient email is required.'']
      else
        (case to of
           Some (JArr emails) \<Rightarrow> recipientErrors emails
         | Some (JStr s) \<Rightarrow>
             Inr (if \<not> isValidEmail (trim s) then [js ''Recipient email format is invalid.'']
                  else [])
         | _ \<Rightarrow> Inr [js ''Recipient must be a string or array of strings.'']))"

definition validateMail :: "body \<Rightarrow> exn + mail_data validation" where
  "validateMail data =
     (case recipientCheck (data ''to'') of
        Inl e \<Rightarrow> Inl e
      | Inr toErrors \<Rightarrow>
          (let subjectValidation = validateStringField (data ''subject'') (js ''Subject'') 1 255;
               bodyValidation =
                 validateStringField (data ''body'') (js ''Message body'') 1 10000;
               errors = toErrors @ fieldErrors subjectValidation @ fieldErrors bodyValidation
           in if length errors > 0 then Inr (Invalid errors)
              else
                (case (subjectValidation, bodyValidation) of
                   (FieldOk subject, FieldOk body) \<Rightarrow>
                     (case data ''to'' of
                        Some (JArr emails) \<Rightarrow>
                          (case mapTrim emails of
                             Inl e \<Rightarrow> Inl e
                           | Inr to \<Rightarrow>
                               Inr (Valid \<lparr>md_to = to, md_subject = subject, md_body = body\<rparr>))
                      | Some (JStr s) \<Rightarrow>
                          Inr (Valid \<lparr>md_to = [trim s], md_subject = subject, md_body = body\<rparr>)
                      | _ \<Rightarrow> Inl TypeError)
                 | _ \<Rightarrow> Inl TypeError)))"

section \<open>Persistence\<close>

text \<open>
  The four tables. The program has no \<open>DELETE\<close>, so the row with identifier \<open>k\<close> is the
  \<open>k\<close>-th row inserted: a table is the list of its rows in insertion order, an insert
  appends and returns the new length (\<open>this.lastID\<close>), and \<open>WHERE id = k\<close> selects
  position \<open>k - 1\<close>.
\<close>

record registration_entry =
  re_name :: jsstring
  re_email :: jsstring
  re_address :: jsstring
  re_contact :: jsstring
  re_receivedAt :: jsstring

record contact_entry =
  ce_name :: jsstring
  ce_email :: jsstring
  ce_message :: jsstring
  ce_receivedAt :: jsstring

record score_entry =
  se_score :: jsnum
  se_details :: "jsstring option"
  se_receivedAt :: jsstring

record mail_record =
  mr_recipients :: jsstring
  mr_subject :: jsstring
  mr_body :: jsstring
  mr_status :: jsstring
  mr_sentAt :: "jsstring option"
  mr_error :: "jsstring option"

record db =
  registrations :: "registration_entry list"
  contacts :: "contact_entry list"
  scores :: "score_entry list"
  mails :: "mail_record list"

text \<open>What a request handler reads from outside the program.\<close>

datatype send_error = SendError (errMessage: "jsstring option") (errString: jsstring)

record smtp_config =
  smtp_host :: jsstring
  smtp_port :: jsnum
  smtp_secure :: bool
  smtp_auth :: "(jsstring \<times> jsstring option) option"

record mail_message =
  mm_from :: jsstring
  mm_to :: jsstring
  mm_subject :: jsstring
  mm_text :: jsstring

text \<open>
  \<^item> \<open>env\<close>: \<open>process.env\<close>;
  \<^item> \<open>isoNow\<close>: the value of \<open>new Date().toISOString()\<close> during the request;
  \<^item> \<open>storageOk\<close>: whether the storage engine executes the statements of the request
    (otherwise an insert rejects with an error);
  \<^item> \<open>sendMail\<close>: the mail library, \<open>createTransport(config).sendMail(message)\<close>, which
    resolves (\<open>None\<close>) or rejects with an error;
  \<^item> \<open>base64ToString\<close>: \<open>Buffer.from(s, 'base64').toString()\<close>.
\<close>

record world =
  env :: "string \<Rightarrow> jsstring option"
  isoNow :: jsstring
  storageOk :: bool
  sendMail :: "smtp_config \<Rightarrow> mail_message \<Rightarrow> send_error option"
  base64ToString :: "jsstring \<Rightarrow> jsstring"

datatype storage_error = StorageError

text \<open>\<open>x || ''\<close> and \<open>x || null\<close> on the parameters of an insert.\<close>

definition orNull :: "jsstring option \<Rightarrow> jsstring option" where
  "orNull v = (case v of None \<Rightarrow> None | Some s \<Rightarrow> if s = [] then None else Some s)"

definition insertRegistration ::
  "world \<Rightarrow> db \<Rightarrow> registration_entry \<Rightarrow> storage_error + nat \<times> db" where
  "insertRegistration w d entry =
     (if storageOk w
      then Inr (length (registrations d) + 1, d\<lparr>registrations := registrations d @ [entry]\<rparr>)
      else Inl StorageError)"

definition insertContact :: "world \<Rightarrow> db \<Rightarrow> contact_entry \<Rightarrow> storage_error + nat \<times> db" where
  "insertContact w d entry =
     (if storageOk w
      then Inr (length (contacts d) + 1, d\<lparr>contacts := contacts d @ [entry]\<rparr>)
      else Inl StorageError)"

definition insertScore :: "world \<Rightarrow> db \<Rightarrow> score_entry \<Rightarrow> storage_error + nat \<times> db" where
  "insertScore w d entry =
     (if storageOk w
      then Inr (length (scores d) + 1,
                d\<lparr>scores := scores d @ [entry\<lparr>se_details := orNull (se_details entry)\<rparr>]\<rparr>)
      else Inl StorageError)"

definition insertMail :: "world \<Rightarrow> db \<Rightarrow> mail_record \<Rightarrow> storage_error + nat \<times> db" where
  "insertMail w d record =
     (if storageOk w
      then Inr (length (mails d) + 1,
                d\<lparr>mails := mails d @ [record\<lparr>mr_sentAt := orNull (mr_sentAt record),
                                                  mr_error := orNull (mr_error record)\<rparr>]\<rparr>)
      else Inl StorageError)"

text \<open>\<open>UPDATE mails SET ... WHERE id = ?\<close>: the assignments are applied to the row of that
  identifier, if there is one.\<close>

definition updateMail :: "db \<Rightarrow> nat \<Rightarrow> (mail_record \<Rightarrow> mail_record) \<Rightarrow> db" where
  "updateMail d mailId f =
     (if 1 \<le> mailId \<and> mailId \<le> length (mails d)
      then d\<lparr>mails := (mails d)[mailId - 1 := f (mails d ! (mailId - 1))]\<rparr>
      else d)"

section \<open>Route handlers\<close>

datatype payload = JsonBody "(string \<times> json) list" | TextBody jsstring | HtmlBody jsstring

record response =
  resStatus :: nat
  resHeaders :: "(string \<times> jsstring) list"
  resBody :: payload

text \<open>\<open>res.status(n).json(obj)\<close>; \<open>res.json(obj)\<close> is the same with status 200.\<close>

definition jsonResponse :: "nat \<Rightarrow> (string \<times> json) list \<Rightarrow> response" where
  "jsonResponse n obj = \<lparr>resStatus = n, resHeaders = [], resBody = JsonBody obj\<rparr>"

definition jsonId :: "nat \<Rightarrow> json" where
  "jsonId n = JNum (Finite (of_nat n))"

definition jsonErrors :: "jsstring list \<Rightarrow> json" where
  "jsonErrors errors = JArr (map JStr errors)"

text \<open>
  A handler returns the response it sends and the database it leaves, or the exception
  it raised (then it sends nothing itself).
\<close>

definition registerHandler :: "world \<Rightarrow> db \<Rightarrow> body \<Rightarrow> exn + response \<times> db" where
  "registerHandler w d reqBody =
     (case validateRegistration reqBody of
        Inl e \<Rightarrow> Inl e
      | Inr (Invalid errors) \<Rightarrow>
          Inr (jsonResponse 400 [(''success'', JBool False), (''errors'', jsonErrors errors)], d)
      | Inr (Valid v) \<Rightarrow>
          (let entry = \<lparr>re_name = sanitizeHtml (rd_name v), re_email = rd_email v,
                        re_address = sanitizeHtml (rd_address v), re_contact = rd_contact v,
                        re_receivedAt = isoNow w\<rparr>
           in case insertRegistration w d entry of
                Inr (newId, d') \<Rightarrow>
                  Inr (jsonResponse 200 [(''success'', JBool True), (''id'', jsonId newId),
                                         (''message'', JStr (js ''Registration successful.''))], d')
              | Inl err \<Rightarrow>
                  Inr (jsonResponse 500 [(''success'', JBool False),
                                         (''message'', JStr (js ''Could not save registration.''))], d)))"

definition contactHandler :: "world \<Rightarrow> db \<Rightarrow> body \<Rightarrow> exn + response \<times> db" where
  "contactHandler w d reqBody =
     (case validateContact reqBody of
        Inl e \<Rightarrow> Inl e
      | Inr (Invalid errors) \<Rightarrow>
          Inr (jsonResponse 400 [(''success'', JBool False), (''errors'', jsonErrors errors)], d)
      | Inr (Valid v) \<Rightarrow>
          (let entry = \<lparr>ce_name = sanitizeHtml (cd_name v), ce_email = cd_email v,
                        ce_message = sanitizeHtml (cd_message v), ce_receivedAt = isoNow w\<rparr>
           in case insertContact w d entry of
                Inr (newId, d') \<Rightarrow>
                  Inr (jsonResponse 200 [(''success'', JBool True), (''id'', jsonId newId),
                         (''message'', JStr (js ''Contact form submitted successfully.''))], d')
              | Inl err \<Rightarrow>
                  Inr (jsonResponse 500 [(''success'', JBool False),
                                         (''message'', JStr (js ''Could not save contact.''))], d)))"

definition scoreHandler :: "world \<Rightarrow> db \<Rightarrow> body \<Rightarrow> exn + response \<times> db" where
  "scoreHandler w d reqBody =
     (case validateScore reqBody of
        Inl e \<Rightarrow> Inl e
      | Inr (Invalid errors) \<Rightarrow>
          Inr (jsonResponse 400 [(''success'', JBool False), (''errors'', jsonErrors errors)], d)
      | Inr (Valid v) \<Rightarrow>
          (let entry = \<lparr>se_score = sd_score v, se_details = sd_details v,
                        se_receivedAt = isoNow w\<rparr>
           in case insertScore w d entry of
                Inr (newId, d') \<Rightarrow>
                  Inr (jsonResponse 200 [(''success'', JBool True), (''id'', jsonId newId),
                         (''message'', JStr (js ''Score recorded successfully.''))], d')
              | Inl err \<Rightarrow>
                  Inr (jsonResponse 500 [(''success'', JBool False),
                                         (''message'', JStr (js ''Could not save score.''))], d)))"

text \<open>The options passed to \<open>createTransport\<close> (lines 399 to 404).\<close>

definition transportConfig :: "world \<Rightarrow> jsstring \<Rightarrow> smtp_config" where
  "transportConfig w smtpHost =
     \<lparr>smtp_host = smtpHost,
      smtp_port = (if truthyEnv (env w ''SMTP_PORT'')
                   then parseInt (envOr (env w ''SMTP_PORT'') []) else Finite 587),
      smtp_secure = (env w ''SMTP_SECURE'' = Some (js ''true'')),
      smtp_auth = (if truthyEnv (env w ''SMTP_USER'')
                   then Some (envOr (env w ''SMTP_USER'') [], env w ''SMTP_PASS'')
                   else None)\<rparr>"

text \<open>\<open>String(sendErr.message || sendErr)\<close>.\<close>

definition sendErrorText :: "send_error \<Rightarrow> jsstring" where
  "sendErrorText sendErr = envOr (errMessage sendErr) (errString sendErr)"

definition sendMailHandler :: "world \<Rightarrow> db \<Rightarrow> body \<Rightarrow> exn + response \<times> db" where
  "sendMailHandler w d reqBody =
     (case validateMail reqBody of
        Inl e \<Rightarrow> Inl e
      | Inr (Invalid errors) \<Rightarrow>
          Inr (jsonResponse 400 [(''success'', JBool False), (''errors'', jsonErrors errors)], d)
      | Inr (Valid v) \<Rightarrow>
          (let recipients = joinWith (js '','') (md_to v);
               record = \<lparr>mr_recipients = recipients, mr_subject = sanitizeHtml (md_subject v),
                         mr_body = sanitizeHtml (md_body v), mr_status = js ''pending'',
                         mr_sentAt = None, mr_error = None\<rparr>
           in case insertMail w d record of
                Inl err \<Rightarrow>
                  Inr (jsonResponse 500 [(''success'', JBool False),
                                         (''message'', JStr (js ''Could not record mail.''))], d)
              | Inr (mailId, d1) \<Rightarrow>
                  (let smtpHost = env w ''SMTP_HOST''
                   in if truthyEnv smtpHost then
                        (case sendMail w (transportConfig w (envOr smtpHost []))
                                \<lparr>mm_from = envOr (env w ''SMTP_FROM'') (js ''noreply@example.com''),
                                 mm_to = recipients, mm_subject = md_subject v,
                                 mm_text = md_body v\<rparr> of
                           None \<Rightarrow>
                             Inr (jsonResponse 200
                                    [(''success'', JBool True), (''id'', jsonId mailId),
                                     (''sent'', JBool True),
                                     (''message'', JStr (js ''Email sent successfully.''))],
                                  updateMail d1 mailId
                                    (\<lambda>r. r\<lparr>mr_status := js ''sent'', mr_sentAt := Some (isoNow w)\<rparr>))
                         | Some sendErr \<Rightarrow>
                             Inr (jsonResponse 500
                                    [(''success'', JBool False), (''id'', jsonId mailId),
                                     (''sent'', JBool False),
                                     (''message'', JStr (js ''Mail send failed, logged.''))],
                                  updateMail d1 mailId
                                    (\<lambda>r. r\<lparr>mr_status := js ''failed'',
                                           mr_error := Some (sendErrorText sendErr)\<rparr>)))
                      else
                        Inr (jsonResponse 200
                               [(''success'', JBool True), (''id'', jsonId mailId),
                                (''sent'', JBool False),
                                (''message'', JStr (js ''No SMTP configured; mail recorded.''))],
                             updateMail d1 mailId (\<lambda>r. r\<lparr>mr_status := js ''mocked''\<rparr>)))))"

section \<open>Admin (Basic HTTP Auth)\<close>








text \<open>The record of lines 384 to 391, which \<open>sendMailHandler\<close> inserts.\<close>

definition pendingRecord :: "mail_data \<Rightarrow> mail_record" where
  "pendingRecord v =
     \<lparr>mr_recipients = joinWith (js '','') (md_to v), mr_subject = sanitizeHtml (md_subject v),
      mr_body = sanitizeHtml (md_body v), mr_status = js ''pending'',
      mr_sentAt = None, mr_error = None\<rparr>"

text \<open>A property of a JSON response body; \<open>None\<close> when the body has no such property.\<close>

definition jsonField :: "response \<Rightarrow> string \<Rightarrow> json option" where
  "jsonField r k = (case resBody r of JsonBody obj \<Rightarrow> map_of obj k | _ \<Rightarrow> None)"

section \<open>Specification of the sanitization layer\<close>


section \<open>Example requests\<close>

text \<open>A server without SMTP configuration and with default admin credentials, an empty
  database, and some request bodies.\<close>

definition exampleWorld :: world where
  "exampleWorld =
     \<lparr>env = (\<lambda>k. None), isoNow = js ''2024-05-01T10:00:00.000Z'', storageOk = True,
      sendMail = (\<lambda>config message. None),
      base64ToString =
        (\<lambda>s. if s = js ''YWRtaW46YWRtaW4xMjM='' then js ''admin:admin123'' else [])\<rparr>"

text \<open>A server whose configured mail transport refuses the connection.\<close>

definition failingWorld :: world where
  "failingWorld =
     \<lparr>env = (\<lambda>k. if k = ''SMTP_HOST'' then Some (js ''smtp.example.org'') else None),
      isoNow = js ''2024-05-01T10:00:00.000Z'', storageOk = True,
      sendMail = (\<lambda>config message.
        Some (SendError (Some (js ''connect ECONNREFUSED'')) (js ''Error: connect ECONNREFUSED''))),
      base64ToString = (\<lambda>s. [])\<rparr>"

definition emptyDb :: db where
  "emptyDb = \<lparr>registrations = [], contacts = [], scores = [], mails = []\<rparr>"

definition emptyBody :: body where
  "emptyBody k = None"

definition registrationBody :: body where
  "registrationBody k =
     (if k = ''name'' then Some (JStr (js ''Ann <Lee>''))
      else if k = ''email'' then Some (JStr (js ''ann@example.org''))
      else if k = ''contact'' then Some (JStr (js ''555-0100''))
      else if k = ''address'' then Some (JStr (js ''1 Main St & Co''))
      else None)"

definition blankNameBody :: body where
  "blankNameBody k =
     (if k = ''name'' then Some (JStr (js ''   ''))
      else if k = ''email'' then Some (JStr (js ''ann@example.org''))
      else if k = ''contact'' then Some (JStr (js ''555-0100''))
      else None)"

definition contactBody :: "string \<Rightarrow> body" where
  "contactBody message k =
     (if k = ''name'' then Some (JStr (js ''Ann''))
      else if k = ''email'' then Some (JStr (js ''ann@example.org''))
      else if k = ''message'' then Some (JStr (js message))
      else None)"

definition scoreBody :: body where
  "scoreBody k = (if k = ''score'' then Some (JNum (Finite 3)) else None)"

definition mailBody :: "json \<Rightarrow> body" where
  "mailBody to k =
     (if k = ''to'' then Some to
      else if k = ''subject'' then Some (JStr (js ''Seminar <1>''))
      else if k = ''body'' then Some (JStr (js ''See you & yours.''))
      else None)"


section \<open>The score computation of the client\<close>

lemma set_1_12: "{1..12::nat} = {1, 2, 3, 4, 5, 6, 7, 8, 9, 10, 11, 12}"
proof -
  have "{1..12::nat} = set [1..<13]" by auto
  also have "[1..<13] = [1, 2, 3, 4, 5, 6, 7, 8, 9, 10, 11, 12::nat]" by (simp add: upt_rec)
  finally show ?thesis by simp
qed


lemma bex_1_12:
  "(\<exists>i\<in>{1..12::nat}. P i) \<longleftrightarrow>
     P 1 \<or> P 2 \<or> P 3 \<or> P 4 \<or> P 5 \<or> P 6 \<or> P 7 \<or> P 8 \<or> P 9 \<or> P 10 \<or> P 11 \<or> P 12"
  unfolding set_1_12 by simp




text \<open>The loop counts at most one answer per question, and fewer when one is missing.\<close>

lemma scoreLoop_count_le:
  "i \<le> 13 \<Longrightarrow> snd (scoreLoop form i (t, n)) \<le> n + (13 - i)"
proof (induction "13 - i" arbitrary: i t n)
  case 0
  then show ?case by (simp add: scoreLoop.simps questionsCount_def)
next
  case (Suc k)
  then have i: "i \<le> 12" by simp
  have IH: "\<And>t' n'. snd (scoreLoop form (i + 1) (t', n')) \<le> n' + (12 - i)"
    using Suc.hyps(1)[of "i + 1"] Suc.hyps(2) i by simp
  show ?case
    using i IH[of t n] IH[of "num_add t (parseInt (the (form (questionName i))))" "n + 1"]
    by (subst scoreLoop.simps) (auto simp: questionsCount_def split: option.splits)
qed

lemma scoreLoop_missing:
  assumes "i \<le> j" "j \<le> 12"
    and "form (questionName j) = None \<or> form (questionName j) = Some []"
  shows "snd (scoreLoop form i (t, n)) < n + (13 - i)"
  using assms(1)
proof (induction "j - i" arbitrary: i t n)
  case 0
  then have ij: "i = j" by simp
  have "snd (scoreLoop form (j + 1) (t, n)) \<le> n + (13 - (j + 1))"
    using scoreLoop_count_le[of "j + 1"] assms(2) by simp
  then show ?case
    using assms(2,3) ij
    by (subst scoreLoop.simps) (auto simp: questionsCount_def truthyStr_def)
next
  case (Suc k)
  then have i: "i < j" "i \<le> 12" using assms(2) by auto
  have IH: "\<And>t' n'. snd (scoreLoop form (i + 1) (t', n')) < n' + (12 - i)"
    using Suc.hyps(1)[of "i + 1"] Suc.hyps(2) i by simp
  show ?case
    using i IH[of t n] IH[of "num_add t (parseInt (the (form (questionName i))))" "n + 1"]
    by (subst scoreLoop.simps) (auto simp: questionsCount_def split: option.splits)
qed



text \<open>
  C2. When one of the twelve questions has no answer (the form has no such control, or
  none of its options is selected), \<open>calculateScore\<close> leaves the warning in the results
  container, which is the markup of no category, and posts no score.
\<close>

theorem calculateScore_missing_answer:
  assumes "\<exists>i\<in>{1..12}. form (questionName i) = None \<or> form (questionName i) = Some []"
  shows "calculateScore form = (warningContainer, None)
         \<and> innerHTML warningContainer
             = js ''<h3>Please answer all questions to see your score.</h3>''
         \<and> (\<forall>averageScore. innerHTML warningContainer \<noteq> resultHtml (categorize averageScore))"
proof -
  from assms obtain j where j: "1 \<le> j" "j \<le> 12"
    "form (questionName j) = None \<or> form (questionName j) = Some []" by auto
  have "snd (scoreLoop form 1 (Finite 0, 0)) < 12"
    using scoreLoop_missing[of 1 j form "Finite 0" 0] j by simp
  then have "calculateScore form = (warningContainer, None)"
    by (cases "scoreLoop form 1 (Finite 0, 0)") (simp add: calculateScore_def questionsCount_def)
  moreover have "\<forall>averageScore. innerHTML warningContainer \<noteq> resultHtml (categorize averageScore)"
    by (simp add: warningContainer_def resultHtml_def js_def)
  ultimately show ?thesis by (simp add: warningContainer_def)
qed

text \<open>A form in which only question 7 is left open.\<close>

theorem calculateScore_missing_answer_witness:
  "(\<exists>i\<in>{1..12}. (\<lambda>k. if k = ''q7'' then Some [] else Some (js ''3'')) (questionName i) = None
       \<or> (\<lambda>k. if k = ''q7'' then Some [] else Some (js ''3'')) (questionName i) = Some [])
   \<and> calculateScore (\<lambda>k. if k = ''q7'' then Some [] else Some (js ''3''))
       = (warningContainer, None)"
proof -
  have h: "\<exists>i\<in>{1..12}. (\<lambda>k. if k = ''q7'' then Some [] else Some (js ''3'')) (questionName i) = None
       \<or> (\<lambda>k. if k = ''q7'' then Some [] else Some (js ''3'')) (questionName i) = Some []"
    unfolding bex_1_12 by (simp add: questionName_def showNat.simps digitChar_def)
  show ?thesis
    using calculateScore_missing_answer[OF h] h by blast
qed

section \<open>Validation and sanitization on the server\<close>

lemma rxMatch_Many1_end: "rxMatch [Many1 P] s \<longleftrightarrow> s \<noteq> [] \<and> (\<forall>x\<in>set s. P x)"
  by (induction s) auto

lemma rxMatch_Lit: "rxMatch (Lit c # ps) s \<longleftrightarrow> (\<exists>r. s = c # r \<and> rxMatch ps r)"
  by (cases s) auto

lemma rxMatch_Many1_Lit:
  "rxMatch (Many1 P # Lit c # ps) s \<longleftrightarrow>
     (\<exists>a r. s = a @ c # r \<and> a \<noteq> [] \<and> (\<forall>x\<in>set a. P x) \<and> rxMatch ps r)"
proof (induction s)
  case Nil
  then show ?case by simp
next
  case (Cons x xs)
  show ?case
  proof
    assume "rxMatch (Many1 P # Lit c # ps) (x # xs)"
    then have px: "P x" and d: "rxMatch (Lit c # ps) xs \<or> rxMatch (Many1 P # Lit c # ps) xs"
      by auto
    from d show "\<exists>a r. x # xs = a @ c # r \<and> a \<noteq> [] \<and> (\<forall>x\<in>set a. P x) \<and> rxMatch ps r"
    proof
      assume "rxMatch (Lit c # ps) xs"
      then obtain r where "xs = c # r" "rxMatch ps r" by (auto simp: rxMatch_Lit)
      with px show ?thesis by (intro exI[of _ "[x]"] exI[of _ r]) simp
    next
      assume "rxMatch (Many1 P # Lit c # ps) xs"
      with Cons.IH obtain a r where "xs = a @ c # r" "a \<noteq> []" "\<forall>x\<in>set a. P x" "rxMatch ps r"
        by blast
      with px show ?thesis by (intro exI[of _ "x # a"] exI[of _ r]) simp
    qed
  next
    assume "\<exists>a r. x # xs = a @ c # r \<and> a \<noteq> [] \<and> (\<forall>x\<in>set a. P x) \<and> rxMatch ps r"
    then obtain a r where e: "x # xs = a @ c # r" and ne: "a \<noteq> []"
      and pa: "\<forall>x\<in>set a. P x" and m: "rxMatch ps r" by blast
    from ne obtain a' where a: "a = x # a'" using e by (cases a) auto
    with e have xs: "xs = a' @ c # r" by simp
    show "rxMatch (Many1 P # Lit c # ps) (x # xs)"
    proof (cases "a' = []")
      case True
      with xs m pa a show ?thesis by simp
    next
      case False
      with xs m pa a Cons.IH have "rxMatch (Many1 P # Lit c # ps) xs" by auto
      with pa a show ?thesis by simp
    qed
  qed
qed

text \<open>
  What the regular expression accepts: a non-empty local part, \<open>@\<close>, a non-empty
  domain, a dot and a non-empty rest, none of them with white space or another \<open>@\<close>.
\<close>

lemma isValidEmail_iff:
  "isValidEmail s \<longleftrightarrow>
     (\<exists>local domain tld. s = local @ 0x40 # domain @ 0x2E # tld
        \<and> local \<noteq> [] \<and> domain \<noteq> [] \<and> tld \<noteq> []
        \<and> (\<forall>x\<in>set (local @ domain @ tld). notSpaceAt x))"
  unfolding isValidEmail_def emailRegex_def rxMatch_Many1_Lit rxMatch_Many1_end
  by (auto simp: ball_Un)

lemma isValidEmail_Nil: "\<not> isValidEmail []"
  by (simp add: isValidEmail_def emailRegex_def)

lemma trim_Nil: "trim [] = []"
  by (simp add: trim_def)

lemma emailErrors_valid:
  assumes "email = Some (JStr e)" "isValidEmail (trim e)" "length (trim e) \<le> 255"
  shows "emailErrors email = []"
proof -
  have "e \<noteq> []" using assms(2) isValidEmail_Nil trim_Nil by auto
  then show ?thesis using assms by (simp add: emailErrors_def)
qed

lemma validateStringField_ok:
  assumes "v = Some (JStr s)" "minLength \<le> length (trim s)" "length (trim s) \<le> maxLength"
  shows "validateStringField v fieldName minLength maxLength = FieldOk (trim s)"
  using assms by (simp add: validateStringField_def)

lemma validateContact_short_message:
  assumes "reqBody ''message'' = Some (JStr m)" "length (trim m) < 10"
  shows "\<exists>errors. validateContact reqBody = Inr (Invalid errors)
           \<and> js ''Message is required (minimum 10 character).'' \<in> set errors"
proof -
  have mv: "validateStringField (reqBody ''message'') (js ''Message'') 10 5000
      = FieldError (js ''Message is required (minimum 10 character).'')"
    using assms by (simp add: validateStringField_def showNat.simps digitChar_def js_def)
  show ?thesis
    unfolding validateContact_def Let_def mv fieldErrors_def by simp
qed

text \<open>
  C3. A contact submission whose trimmed message has 9 code units is answered with HTTP
  400 and the error about the minimum of 10. A submission whose trimmed message has 10 to
  5000 code units, with a name of 1 to 100 and a well-formed email of at most 255, passes
  \<open>validateContact\<close>; when the storage engine performs the insert, the handler stores
  the row and answers 200 with \<open>success: true\<close>.
\<close>

theorem contactHandler_message_length:
  "(reqBody ''message'' = Some (JStr m) \<and> length (trim m) = 9 \<longrightarrow>
      (\<exists>errors. contactHandler w d reqBody =
          Inr (jsonResponse 400 [(''success'', JBool False), (''errors'', jsonErrors errors)], d)
        \<and> js ''Message is required (minimum 10 character).'' \<in> set errors))
   \<and> (reqBody ''message'' = Some (JStr m) \<and> 10 \<le> length (trim m) \<and> length (trim m) \<le> 5000
      \<and> reqBody ''name'' = Some (JStr n) \<and> 1 \<le> length (trim n) \<and> length (trim n) \<le> 100
      \<and> reqBody ''email'' = Some (JStr e) \<and> isValidEmail (trim e) \<and> length (trim e) \<le> 255 \<longrightarrow>
        validateContact reqBody =
          Inr (Valid \<lparr>cd_name = trim n, cd_email = trim e, cd_message = trim m\<rparr>)
        \<and> (storageOk w \<longrightarrow>
             contactHandler w d reqBody =
               Inr (jsonResponse 200
                      [(''success'', JBool True), (''id'', jsonId (length (contacts d) + 1)),
                       (''message'', JStr (js ''Contact form submitted successfully.''))],
                    d\<lparr>contacts := contacts d @
                        [\<lparr>ce_name = sanitizeHtml (trim n), ce_email = trim e,
                          ce_message = sanitizeHtml (trim m), ce_receivedAt = isoNow w\<rparr>]\<rparr>)))"
proof (intro conjI impI)
  assume a: "reqBody ''message'' = Some (JStr m) \<and> length (trim m) = 9"
  then obtain errors where "validateContact reqBody = Inr (Invalid errors)"
    and "js ''Message is required (minimum 10 character).'' \<in> set errors"
    using validateContact_short_message[of reqBody m] by auto
  then show "\<exists>errors. contactHandler w d reqBody =
          Inr (jsonResponse 400 [(''success'', JBool False), (''errors'', jsonErrors errors)], d)
        \<and> js ''Message is required (minimum 10 character).'' \<in> set errors"
    by (intro exI[of _ errors]) (simp add: contactHandler_def)
next
  assume a: "reqBody ''message'' = Some (JStr m) \<and> 10 \<le> length (trim m) \<and> length (trim m) \<le> 5000
      \<and> reqBody ''name'' = Some (JStr n) \<and> 1 \<le> length (trim n) \<and> length (trim n) \<le> 100
      \<and> reqBody ''email'' = Some (JStr e) \<and> isValidEmail (trim e) \<and> length (trim e) \<le> 255"
  have nv: "validateStringField (reqBody ''name'') (js ''Name'') 1 100 = FieldOk (trim n)"
    using a by (intro validateStringField_ok) auto
  have mv: "validateStringField (reqBody ''message'') (js ''Message'') 10 5000 = FieldOk (trim m)"
    using a by (intro validateStringField_ok) auto
  have ev: "emailErrors (reqBody ''email'') = []"
    using a by (intro emailErrors_valid[of _ e]) auto
  show v: "validateContact reqBody =
          Inr (Valid \<lparr>cd_name = trim n, cd_email = trim e, cd_message = trim m\<rparr>)"
    unfolding validateContact_def Let_def nv mv ev fieldErrors_def using a by simp
  assume "storageOk w"
  then show "contactHandler w d reqBody =
               Inr (jsonResponse 200
                      [(''success'', JBool True), (''id'', jsonId (length (contacts d) + 1)),
                       (''message'', JStr (js ''Contact form submitted successfully.''))],
                    d\<lparr>contacts := contacts d @
                        [\<lparr>ce_name = sanitizeHtml (trim n), ce_email = trim e,
                          ce_message = sanitizeHtml (trim m), ce_receivedAt = isoNow w\<rparr>]\<rparr>)"
    by (simp add: contactHandler_def v insertContact_def)
qed

text \<open>A message of nine digits between spaces is refused; with ten digits the submission
  is stored as the first contact.\<close>

theorem contactHandler_message_length_witness:
  "resStatus (fst (projr (contactHandler exampleWorld emptyDb (contactBody '' 123456789 '')))) = 400
   \<and> contactHandler exampleWorld emptyDb (contactBody '' 1234567890 '') =
       Inr (jsonResponse 200
              [(''success'', JBool True), (''id'', jsonId 1),
               (''message'', JStr (js ''Contact form submitted successfully.''))],
            emptyDb\<lparr>contacts :=
              [\<lparr>ce_name = js ''Ann'', ce_email = js ''ann@example.org'',
                ce_message = js ''1234567890'', ce_receivedAt = js ''2024-05-01T10:00:00.000Z''\<rparr>]\<rparr>)"
proof -
  have t: "trim (js '' 123456789 '') = js ''123456789''"
    "trim (js '' 1234567890 '') = js ''1234567890''"
    "trim (js ''Ann'') = js ''Ann''"
    "trim (js ''ann@example.org'') = js ''ann@example.org''"
    by code_simp+
  have e: "isValidEmail (js ''ann@example.org'')"
    by code_simp
  have s: "sanitizeHtml (js ''Ann'') = js ''Ann''"
    "sanitizeHtml (js ''1234567890'') = js ''1234567890''"
    by code_simp+
  have l: "length (js ''123456789'') = 9" "length (js ''1234567890'') = 10"
    "length (js ''Ann'') = 3" "length (js ''ann@example.org'') = 15"
    by (simp_all add: js_def)
  show ?thesis
    using contactHandler_message_length[of "contactBody '' 123456789 ''" "js '' 123456789 ''"
        exampleWorld emptyDb "js ''Ann''" "js ''ann@example.org''"]
      contactHandler_message_length[of "contactBody '' 1234567890 ''" "js '' 1234567890 ''"
        exampleWorld emptyDb "js ''Ann''" "js ''ann@example.org''"]
    by (auto simp: contactBody_def t e s l exampleWorld_def emptyDb_def jsonResponse_def)
qed










section \<open>The mail handler\<close>

lemma insertMail_pending:
  "storageOk w \<Longrightarrow>
   insertMail w d (pendingRecord v)
     = Inr (length (mails d) + 1, d\<lparr>mails := mails d @ [pendingRecord v]\<rparr>)"
  by (simp add: insertMail_def pendingRecord_def orNull_def)

lemma insertMail_fails: "\<not> storageOk w \<Longrightarrow> insertMail w d r = Inl StorageError"
  by (simp add: insertMail_def)

lemma updateMail_last:
  "updateMail (d\<lparr>mails := mails d @ [rec]\<rparr>) (Suc (length (mails d))) f
     = d\<lparr>mails := mails d @ [f rec]\<rparr>"
  by (simp add: updateMail_def)

text \<open>The handler after a successful validation, with the record it inserts named.\<close>

lemma sendMailHandler_valid:
  assumes "validateMail reqBody = Inr (Valid v)"
  shows "sendMailHandler w d reqBody =
     (case insertMail w d (pendingRecord v) of
        Inl err \<Rightarrow>
          Inr (jsonResponse 500 [(''success'', JBool False),
                                 (''message'', JStr (js ''Could not record mail.''))], d)
      | Inr (mailId, d1) \<Rightarrow>
          if truthyEnv (env w ''SMTP_HOST'') then
            (case sendMail w (transportConfig w (envOr (env w ''SMTP_HOST'') []))
                    \<lparr>mm_from = envOr (env w ''SMTP_FROM'') (js ''noreply@example.com''),
                     mm_to = joinWith (js '','') (md_to v), mm_subject = md_subject v,
                     mm_text = md_body v\<rparr> of
               None \<Rightarrow>
                 Inr (jsonResponse 200
                        [(''success'', JBool True), (''id'', jsonId mailId),
                         (''sent'', JBool True),
                         (''message'', JStr (js ''Email sent successfully.''))],
                      updateMail d1 mailId
                        (\<lambda>r. r\<lparr>mr_status := js ''sent'', mr_sentAt := Some (isoNow w)\<rparr>))
             | Some sendErr \<Rightarrow>
                 Inr (jsonResponse 500
                        [(''success'', JBool False), (''id'', jsonId mailId),
                         (''sent'', JBool False),
                         (''message'', JStr (js ''Mail send failed, logged.''))],
                      updateMail d1 mailId
                        (\<lambda>r. r\<lparr>mr_status := js ''failed'',
                               mr_error := Some (sendErrorText sendErr)\<rparr>)))
          else
            Inr (jsonResponse 200
                   [(''success'', JBool True), (''id'', jsonId mailId),
                    (''sent'', JBool False),
                    (''message'', JStr (js ''No SMTP configured; mail recorded.''))],
                 updateMail d1 mailId (\<lambda>r. r\<lparr>mr_status := js ''mocked''\<rparr>)))"
  unfolding sendMailHandler_def Let_def pendingRecord_def by (simp add: assms)

lemma sendMailHandler_no_host:
  assumes "validateMail reqBody = Inr (Valid v)"
    and "\<not> truthyEnv (env w ''SMTP_HOST'')"
    and "storageOk w"
  shows "sendMailHandler w d reqBody =
             Inr (jsonResponse 200
                    [(''success'', JBool True), (''id'', jsonId (length (mails d) + 1)),
                     (''sent'', JBool False),
                     (''message'', JStr (js ''No SMTP configured; mail recorded.''))],
                  d\<lparr>mails := mails d @ [(pendingRecord v)\<lparr>mr_status := js ''mocked''\<rparr>]\<rparr>)"
  unfolding sendMailHandler_valid[OF assms(1)] insertMail_pending[OF assms(3)]
  using assms(2) by (simp add: updateMail_last)



text \<open>
  The score handler has one more text field, the optional \<open>details\<close>, which is not
  among the fields listed for the sanitization: it is stored trimmed, without escaping.
\<close>

lemma scoreHandler_details_unescaped:
  "scoreHandler exampleWorld emptyDb
     (\<lambda>k. if k = ''score'' then Some (JNum (Finite 3))
          else if k = ''details'' then Some (JStr (js '' <b> '')) else None) =
   Inr (jsonResponse 200
          [(''success'', JBool True), (''id'', jsonId 1),
           (''message'', JStr (js ''Score recorded successfully.''))],
        emptyDb\<lparr>scores := [\<lparr>se_score = Finite 3, se_details = Some (js ''<b>''),
                              se_receivedAt = js ''2024-05-01T10:00:00.000Z''\<rparr>]\<rparr>)"
  by code_simp


lemma mail_example_valid:
  "validateMail (mailBody (JStr (js ''ann@example.org'')))
     = Inr (Valid \<lparr>md_to = [js ''ann@example.org''], md_subject = js ''Seminar <1>'',
                   md_body = js ''See you & yours.''\<rparr>)"
  by code_simp

lemma mail_example_sanitized:
  "sanitizeHtml (js ''Seminar <1>'') = js ''Seminar &lt;1&gt;''"
  "sanitizeHtml (js ''See you & yours.'') = js ''See you &amp; yours.''"
  by code_simp+

lemma mail_example_mocked:
  "sendMailHandler exampleWorld emptyDb (mailBody (JStr (js ''ann@example.org''))) =
     Inr (jsonResponse 200
            [(''success'', JBool True), (''id'', jsonId 1), (''sent'', JBool False),
             (''message'', JStr (js ''No SMTP configured; mail recorded.''))],
          emptyDb\<lparr>mails :=
            [\<lparr>mr_recipients = js ''ann@example.org'', mr_subject = js ''Seminar &lt;1&gt;'',
              mr_body = js ''See you &amp; yours.'', mr_status = js ''mocked'',
              mr_sentAt = None, mr_error = None\<rparr>]\<rparr>)"
  by code_simp

lemma register_example:
  "registerHandler exampleWorld emptyDb registrationBody =
     Inr (jsonResponse 200
            [(''success'', JBool True), (''id'', jsonId 1),
             (''message'', JStr (js ''Registration successful.''))],
          emptyDb\<lparr>registrations :=
            [\<lparr>re_name = js ''Ann &lt;Lee&gt;'', re_email = js ''ann@example.org'',
              re_address = js ''1 Main St &amp; Co'', re_contact = js ''555-0100'',
              re_receivedAt = js ''2024-05-01T10:00:00.000Z''\<rparr>]\<rparr>)"
  by code_simp

lemma contact_example:
  "contactHandler exampleWorld emptyDb (contactBody ''It's <ok>!'') =
     Inr (jsonResponse 200
            [(''success'', JBool True), (''id'', jsonId 1),
             (''message'', JStr (js ''Contact form submitted successfully.''))],
          emptyDb\<lparr>contacts :=
            [\<lparr>ce_name = js ''Ann'', ce_email = js ''ann@example.org'',
              ce_message = js ''It&#x27;s &lt;ok&gt;!'',
              ce_receivedAt = js ''2024-05-01T10:00:00.000Z''\<rparr>]\<rparr>)"
  by code_simp


text \<open>
  C5. For a valid mail request, when \<open>SMTP_HOST\<close> is not set and the storage engine
  performs the insert, the record is inserted with status \<open>pending\<close> under the next
  identifier, its status is then set to \<open>mocked\<close>, and the response is HTTP 200 with
  \<open>success: true\<close> and \<open>sent: false\<close>.
\<close>

theorem sendMailHandler_without_smtp:
  assumes "validateMail reqBody = Inr (Valid v)"
    and "env w ''SMTP_HOST'' = None"
    and "storageOk w"
  shows "insertMail w d (pendingRecord v)
           = Inr (length (mails d) + 1, d\<lparr>mails := mails d @ [pendingRecord v]\<rparr>)
         \<and> mr_status (pendingRecord v) = js ''pending''
         \<and> sendMailHandler w d reqBody =
             Inr (jsonResponse 200
                    [(''success'', JBool True), (''id'', jsonId (length (mails d) + 1)),
                     (''sent'', JBool False),
                     (''message'', JStr (js ''No SMTP configured; mail recorded.''))],
                  d\<lparr>mails := mails d @ [(pendingRecord v)\<lparr>mr_status := js ''mocked''\<rparr>]\<rparr>)"
proof -
  have "\<not> truthyEnv (env w ''SMTP_HOST'')"
    using assms(2) by (simp add: truthyEnv_def)
  then show ?thesis
    using sendMailHandler_no_host[OF assms(1) _ assms(3)] insertMail_pending[OF assms(3)]
    by (simp add: pendingRecord_def)
qed

theorem sendMailHandler_without_smtp_witness:
  "sendMailHandler exampleWorld emptyDb (mailBody (JStr (js ''ann@example.org''))) =
     Inr (jsonResponse 200
            [(''success'', JBool True), (''id'', jsonId 1), (''sent'', JBool False),
             (''message'', JStr (js ''No SMTP configured; mail recorded.''))],
          emptyDb\<lparr>mails :=
            [\<lparr>mr_recipients = js ''ann@example.org'', mr_subject = js ''Seminar &lt;1&gt;'',
              mr_body = js ''See you &amp; yours.'', mr_status = js ''mocked'',
              mr_sentAt = None, mr_error = None\<rparr>]\<rparr>)"
proof -
  have h: "env exampleWorld ''SMTP_HOST'' = None" "storageOk exampleWorld"
    by (simp_all add: exampleWorld_def)
  have j: "joinWith (js '','') [js ''ann@example.org''] = js ''ann@example.org''"
    by simp
  show ?thesis
    using sendMailHandler_without_smtp[OF mail_example_valid h, of emptyDb]
    by (simp add: pendingRecord_def emptyDb_def mail_example_sanitized)
qed


lemma mail_example_failed:
  "sendMailHandler failingWorld emptyDb (mailBody (JStr (js ''ann@example.org''))) =
     Inr (jsonResponse 500
            [(''success'', JBool False), (''id'', jsonId 1), (''sent'', JBool False),
             (''message'', JStr (js ''Mail send failed, logged.''))],
          emptyDb\<lparr>mails :=
            [\<lparr>mr_recipients = js ''ann@example.org'', mr_subject = js ''Seminar &lt;1&gt;'',
              mr_body = js ''See you &amp; yours.'', mr_status = js ''failed'',
              mr_sentAt = None, mr_error = Some (js ''connect ECONNREFUSED'')\<rparr>]\<rparr>)"
  by code_simp


text \<open>
  C10. A mail request whose \<open>to\<close> is the empty array, with a subject of 1 to 255 and a
  body of 1 to 10000 code units after trimming, passes \<open>validateMail\<close> with an empty
  list of recipients. When the storage engine performs the insert, the handler does not
  answer 400 and stores a record whose \<open>recipients\<close> is the empty string.
\<close>

theorem validateMail_empty_recipients:
  assumes "reqBody ''to'' = Some (JArr [])"
    and "reqBody ''subject'' = Some (JStr s)" "1 \<le> length (trim s)" "length (trim s) \<le> 255"
    and "reqBody ''body'' = Some (JStr b)" "1 \<le> length (trim b)" "length (trim b) \<le> 10000"
  shows "validateMail reqBody = Inr (Valid \<lparr>md_to = [], md_subject = trim s, md_body = trim b\<rparr>)
         \<and> (storageOk w \<longrightarrow>
              (\<exists>resp row. sendMailHandler w d reqBody = Inr (resp, d\<lparr>mails := mails d @ [row]\<rparr>)
                 \<and> resStatus resp \<noteq> 400
                 \<and> mr_recipients row = []
                 \<and> mr_subject row = sanitizeHtml (trim s)
                 \<and> mr_body row = sanitizeHtml (trim b)))"
proof (intro conjI impI)
  have sv: "validateStringField (reqBody ''subject'') (js ''Subject'') 1 255 = FieldOk (trim s)"
    using assms by (intro validateStringField_ok) auto
  have bv: "validateStringField (reqBody ''body'') (js ''Message body'') 1 10000 = FieldOk (trim b)"
    using assms by (intro validateStringField_ok) auto
  have rc: "recipientCheck (reqBody ''to'') = Inr []"
    using assms(1) by (simp add: recipientCheck_def)
  show v: "validateMail reqBody = Inr (Valid \<lparr>md_to = [], md_subject = trim s, md_body = trim b\<rparr>)"
    unfolding validateMail_def Let_def sv bv rc fieldErrors_def using assms(1) by simp
  assume ok: "storageOk w"
  have p: "mr_recipients (pendingRecord \<lparr>md_to = [], md_subject = trim s, md_body = trim b\<rparr>) = []"
    "mr_subject (pendingRecord \<lparr>md_to = [], md_subject = trim s, md_body = trim b\<rparr>)
       = sanitizeHtml (trim s)"
    "mr_body (pendingRecord \<lparr>md_to = [], md_subject = trim s, md_body = trim b\<rparr>)
       = sanitizeHtml (trim b)"
    by (simp_all add: pendingRecord_def)
  show "\<exists>resp row. sendMailHandler w d reqBody = Inr (resp, d\<lparr>mails := mails d @ [row]\<rparr>)
                 \<and> resStatus resp \<noteq> 400
                 \<and> mr_recipients row = []
                 \<and> mr_subject row = sanitizeHtml (trim s)
                 \<and> mr_body row = sanitizeHtml (trim b)"
    unfolding sendMailHandler_valid[OF v] insertMail_pending[OF ok]
    using p by (auto simp: updateMail_last jsonResponse_def split: option.splits)
qed

lemma mail_example_no_recipient:
  "sendMailHandler exampleWorld emptyDb (mailBody (JArr [])) =
     Inr (jsonResponse 200
            [(''success'', JBool True), (''id'', jsonId 1), (''sent'', JBool False),
             (''message'', JStr (js ''No SMTP configured; mail recorded.''))],
          emptyDb\<lparr>mails :=
            [\<lparr>mr_recipients = [], mr_subject = js ''Seminar &lt;1&gt;'',
              mr_body = js ''See you &amp; yours.'', mr_status = js ''mocked'',
              mr_sentAt = None, mr_error = None\<rparr>]\<rparr>)"
  by code_simp

theorem validateMail_empty_recipients_witness:
  "validateMail (mailBody (JArr []))
     = Inr (Valid \<lparr>md_to = [], md_subject = js ''Seminar <1>'', md_body = js ''See you & yours.''\<rparr>)
   \<and> (\<exists>resp row. sendMailHandler exampleWorld emptyDb (mailBody (JArr []))
           = Inr (resp, emptyDb\<lparr>mails := mails emptyDb @ [row]\<rparr>)
         \<and> resStatus resp \<noteq> 400
         \<and> mr_recipients row = []
         \<and> mr_subject row = sanitizeHtml (js ''Seminar <1>'')
         \<and> mr_body row = sanitizeHtml (js ''See you & yours.''))
   \<and> sendMailHandler exampleWorld emptyDb (mailBody (JArr [])) =
     Inr (jsonResponse 200
            [(''success'', JBool True), (''id'', jsonId 1), (''sent'', JBool False),
             (''message'', JStr (js ''No SMTP configured; mail recorded.''))],
          emptyDb\<lparr>mails :=
            [\<lparr>mr_recipients = [], mr_subject = js ''Seminar &lt;1&gt;'',
              mr_body = js ''See you &amp; yours.'', mr_status = js ''mocked'',
              mr_sentAt = None, mr_error = None\<rparr>]\<rparr>)"
proof -
  have t: "trim (js ''Seminar <1>'') = js ''Seminar <1>''"
    "trim (js ''See you & yours.'') = js ''See you & yours.''"
    by code_simp+
  have p: "mailBody (JArr []) ''to'' = Some (JArr [])"
    "mailBody (JArr []) ''subject'' = Some (JStr (js ''Seminar <1>''))"
    "mailBody (JArr []) ''body'' = Some (JStr (js ''See you & yours.''))"
    by (simp_all add: mailBody_def)
  have b: "1 \<le> length (trim (js ''Seminar <1>''))" "length (trim (js ''Seminar <1>'')) \<le> 255"
    "1 \<le> length (trim (js ''See you & yours.''))"
    "length (trim (js ''See you & yours.'')) \<le> 10000"
    unfolding t by (simp_all add: js_def)
  have ok: "storageOk exampleWorld"
    by (simp add: exampleWorld_def)
  note inst = validateMail_empty_recipients[OF p(1) p(2) b(1) b(2) p(3) b(3) b(4),
      of exampleWorld emptyDb, unfolded t]
  show ?thesis
    by (intro conjI inst[THEN conjunct1] inst[THEN conjunct2, THEN mp, OF ok]
        mail_example_no_recipient)
qed

section \<open>The admin route\<close>











section \<open>Responses of the POST handlers\<close>

text \<open>
  C8. A registration whose name is a string that trims to the empty string (the empty
  string included) is answered with HTTP 400, \<open>success: false\<close> and a list of errors that
  contains \<open>Name is required (minimum 1 character).\<close>
\<close>

theorem registerHandler_empty_name:
  assumes "reqBody ''name'' = Some (JStr n)" and "trim n = []"
  shows "\<exists>errors. registerHandler w d reqBody =
            Inr (jsonResponse 400 [(''success'', JBool False), (''errors'', jsonErrors errors)], d)
          \<and> resStatus (jsonResponse 400 [(''success'', JBool False),
                                          (''errors'', jsonErrors errors)]) = 400
          \<and> js ''Name is required (minimum 1 character).'' \<in> set errors
          \<and> startsWith (js ''Name is required (minimum 1 character).'') (js ''Name is required'')"
proof -
  have nv: "validateStringField (reqBody ''name'') (js ''Name'') 1 100
      = FieldError (js ''Name is required (minimum 1 character).'')"
    using assms by (simp add: validateStringField_def showNat.simps digitChar_def js_def)
  obtain errs where v: "validateRegistration reqBody
      = Inr (Invalid (js ''Name is required (minimum 1 character).'' # errs))"
    unfolding validateRegistration_def Let_def nv fieldErrors_def by simp
  have "startsWith (js ''Name is required (minimum 1 character).'') (js ''Name is required'')"
    by (simp add: startsWith_def js_def)
  then show ?thesis
    by (intro exI[of _ "js ''Name is required (minimum 1 character).'' # errs"])
       (simp add: registerHandler_def v jsonResponse_def)
qed

lemma register_example_blank:
  "registerHandler exampleWorld emptyDb blankNameBody =
     Inr (jsonResponse 400
            [(''success'', JBool False),
             (''errors'', jsonErrors [js ''Name is required (minimum 1 character).''])],
          emptyDb)"
  by code_simp

text \<open>A name of three spaces, with a valid email and contact.\<close>

theorem registerHandler_empty_name_witness:
  "registerHandler exampleWorld emptyDb blankNameBody =
     Inr (jsonResponse 400
            [(''success'', JBool False),
             (''errors'', jsonErrors [js ''Name is required (minimum 1 character).''])],
          emptyDb)
   \<and> resStatus (fst (projr (registerHandler exampleWorld emptyDb blankNameBody))) = 400"
proof -
  have t: "trim (js ''   '') = []"
    by code_simp
  obtain errors where
    "registerHandler exampleWorld emptyDb blankNameBody =
       Inr (jsonResponse 400 [(''success'', JBool False), (''errors'', jsonErrors errors)], emptyDb)"
    "resStatus (jsonResponse 400 [(''success'', JBool False), (''errors'', jsonErrors errors)]) = 400"
    using registerHandler_empty_name[of blankNameBody "js ''   ''" exampleWorld emptyDb] t
    by (auto simp: blankNameBody_def)
  then show ?thesis
    using register_example_blank by simp
qed

lemma jsonResponse_sel:
  "resStatus (jsonResponse n obj) = n"
  "jsonField (jsonResponse n obj) k = map_of obj k"
  by (simp_all add: jsonField_def jsonResponse_def)

lemma registerHandler_shape:
  "(validateRegistration b = Inr (Invalid errors) \<longrightarrow>
      registerHandler w d b =
        Inr (jsonResponse 400 [(''success'', JBool False), (''errors'', jsonErrors errors)], d))
   \<and> (registerHandler w d b = Inr (r, d') \<and> jsonField r ''success'' = Some (JBool True) \<longrightarrow>
        resStatus r = 200 \<and> length (registrations d') = length (registrations d) + 1
        \<and> jsonField r ''id'' = Some (jsonId (length (registrations d')))
        \<and> (\<exists>m. jsonField r ''message'' = Some (JStr m)))"
  by (auto simp: registerHandler_def insertRegistration_def Let_def jsonResponse_sel
      split: sum.splits validation.splits if_splits)

lemma contactHandler_shape:
  "(validateContact b = Inr (Invalid errors) \<longrightarrow>
      contactHandler w d b =
        Inr (jsonResponse 400 [(''success'', JBool False), (''errors'', jsonErrors errors)], d))
   \<and> (contactHandler w d b = Inr (r, d') \<and> jsonField r ''success'' = Some (JBool True) \<longrightarrow>
        resStatus r = 200 \<and> length (contacts d') = length (contacts d) + 1
        \<and> jsonField r ''id'' = Some (jsonId (length (contacts d')))
        \<and> (\<exists>m. jsonField r ''message'' = Some (JStr m)))"
  by (auto simp: contactHandler_def insertContact_def Let_def jsonResponse_sel
      split: sum.splits validation.splits if_splits)

lemma scoreHandler_shape:
  "(validateScore b = Inr (Invalid errors) \<longrightarrow>
      scoreHandler w d b =
        Inr (jsonResponse 400 [(''success'', JBool False), (''errors'', jsonErrors errors)], d))
   \<and> (scoreHandler w d b = Inr (r, d') \<and> jsonField r ''success'' = Some (JBool True) \<longrightarrow>
        resStatus r = 200 \<and> length (scores d') = length (scores d) + 1
        \<and> jsonField r ''id'' = Some (jsonId (length (scores d')))
        \<and> (\<exists>m. jsonField r ''message'' = Some (JStr m)))"
  by (auto simp: scoreHandler_def insertScore_def Let_def jsonResponse_sel
      split: sum.splits validation.splits if_splits)

lemma sendMailHandler_shape:
  "(validateMail b = Inr (Invalid errors) \<longrightarrow>
      sendMailHandler w d b =
        Inr (jsonResponse 400 [(''success'', JBool False), (''errors'', jsonErrors errors)], d))
   \<and> (sendMailHandler w d b = Inr (r, d') \<and> jsonField r ''success'' = Some (JBool True) \<longrightarrow>
        resStatus r = 200 \<and> length (mails d') = length (mails d) + 1
        \<and> jsonField r ''id'' = Some (jsonId (length (mails d')))
        \<and> (\<exists>m. jsonField r ''message'' = Some (JStr m)))"
proof (rule conjI; rule impI)
  assume "validateMail b = Inr (Invalid errors)"
  then show "sendMailHandler w d b =
        Inr (jsonResponse 400 [(''success'', JBool False), (''errors'', jsonErrors errors)], d)"
    by (simp add: sendMailHandler_def)
next
  assume a: "sendMailHandler w d b = Inr (r, d') \<and> jsonField r ''success'' = Some (JBool True)"
  show "resStatus r = 200 \<and> length (mails d') = length (mails d) + 1
        \<and> jsonField r ''id'' = Some (jsonId (length (mails d')))
        \<and> (\<exists>m. jsonField r ''message'' = Some (JStr m))"
  proof (cases "validateMail b")
    case (Inl e)
    with a show ?thesis by (simp add: sendMailHandler_def)
  next
    case (Inr val)
    show ?thesis
    proof (cases val)
      case (Invalid errs)
      with Inr a show ?thesis by (auto simp: sendMailHandler_def jsonResponse_sel)
    next
      case (Valid v)
      with Inr have v: "validateMail b = Inr (Valid v)" by simp
      show ?thesis
      proof (cases "storageOk w")
        case False
        with a show ?thesis
          unfolding sendMailHandler_valid[OF v]
          by (auto simp: insertMail_fails jsonResponse_sel)
      next
        case True
        show ?thesis
          using a unfolding sendMailHandler_valid[OF v] insertMail_pending[OF True]
          by (auto simp: updateMail_last jsonResponse_sel split: if_splits option.splits)
      qed
    qed
  qed
qed

text \<open>
  C9, as the code has it. A request that fails validation is answered by each of the
  four POST handlers with HTTP 400 and the JSON body \<open>{success: false, errors}\<close>, the list
  of validation messages, which has no \<open>message\<close> property. A response with
  \<open>success: true\<close> has status 200 and carries the identifier of the inserted row and a
  \<open>message\<close>.
\<close>

theorem post_handlers_response_shape:
  "(validateRegistration b = Inr (Invalid errors) \<longrightarrow>
      registerHandler w d b =
        Inr (jsonResponse 400 [(''success'', JBool False), (''errors'', jsonErrors errors)], d))
   \<and> (validateContact b = Inr (Invalid errors) \<longrightarrow>
      contactHandler w d b =
        Inr (jsonResponse 400 [(''success'', JBool False), (''errors'', jsonErrors errors)], d))
   \<and> (validateScore b = Inr (Invalid errors) \<longrightarrow>
      scoreHandler w d b =
        Inr (jsonResponse 400 [(''success'', JBool False), (''errors'', jsonErrors errors)], d))
   \<and> (validateMail b = Inr (Invalid errors) \<longrightarrow>
      sendMailHandler w d b =
        Inr (jsonResponse 400 [(''success'', JBool False), (''errors'', jsonErrors errors)], d))
   \<and> resStatus (jsonResponse 400 [(''success'', JBool False), (''errors'', jsonErrors errors)]) = 400
   \<and> jsonField (jsonResponse 400 [(''success'', JBool False), (''errors'', jsonErrors errors)])
        ''message'' = None
   \<and> (registerHandler w d b = Inr (r, d') \<and> jsonField r ''success'' = Some (JBool True) \<longrightarrow>
        resStatus r = 200 \<and> length (registrations d') = length (registrations d) + 1
        \<and> jsonField r ''id'' = Some (jsonId (length (registrations d')))
        \<and> (\<exists>m. jsonField r ''message'' = Some (JStr m)))
   \<and> (contactHandler w d b = Inr (r, d') \<and> jsonField r ''success'' = Some (JBool True) \<longrightarrow>
        resStatus r = 200 \<and> length (contacts d') = length (contacts d) + 1
        \<and> jsonField r ''id'' = Some (jsonId (length (contacts d')))
        \<and> (\<exists>m. jsonField r ''message'' = Some (JStr m)))
   \<and> (scoreHandler w d b = Inr (r, d') \<and> jsonField r ''success'' = Some (JBool True) \<longrightarrow>
        resStatus r = 200 \<and> length (scores d') = length (scores d) + 1
        \<and> jsonField r ''id'' = Some (jsonId (length (scores d')))
        \<and> (\<exists>m. jsonField r ''message'' = Some (JStr m)))
   \<and> (sendMailHandler w d b = Inr (r, d') \<and> jsonField r ''success'' = Some (JBool True) \<longrightarrow>
        resStatus r = 200 \<and> length (mails d') = length (mails d) + 1
        \<and> jsonField r ''id'' = Some (jsonId (length (mails d')))
        \<and> (\<exists>m. jsonField r ''message'' = Some (JStr m)))"
  using registerHandler_shape[of b errors w d r d'] contactHandler_shape[of b errors w d r d']
    scoreHandler_shape[of b errors w d r d'] sendMailHandler_shape[of b errors w d r d']
  by (simp add: jsonResponse_sel)

lemma invalid_examples:
  "validateRegistration emptyBody =
     Inr (Invalid [js ''Name must be a string.'', js ''Email is required.'',
                   js ''Contact must be a string.''])"
  "validateContact emptyBody =
     Inr (Invalid [js ''Name must be a string.'', js ''Email is required.'',
                   js ''Message must be a string.''])"
  "validateScore emptyBody = Inr (Invalid [js ''Score is required.''])"
  "validateMail emptyBody =
     Inr (Invalid [js ''Recipient email is required.'', js ''Subject must be a string.'',
                   js ''Message body must be a string.''])"
  by code_simp+

lemma score_example:
  "scoreHandler exampleWorld emptyDb scoreBody =
       Inr (jsonResponse 200
              [(''success'', JBool True), (''id'', jsonId 1),
               (''message'', JStr (js ''Score recorded successfully.''))],
            emptyDb\<lparr>scores := [\<lparr>se_score = Finite 3, se_details = None,
                                  se_receivedAt = js ''2024-05-01T10:00:00.000Z''\<rparr>]\<rparr>)"
  by code_simp

text \<open>An empty body is refused by the four handlers with the errors of its validator and
  no \<open>message\<close>; a valid registration, contact message, score and mail are each stored
  under identifier 1.\<close>

theorem post_handlers_response_shape_witness:
  "registerHandler exampleWorld emptyDb emptyBody =
     Inr (jsonResponse 400
            [(''success'', JBool False),
             (''errors'', jsonErrors [js ''Name must be a string.'', js ''Email is required.'',
                                      js ''Contact must be a string.''])],
          emptyDb)
   \<and> contactHandler exampleWorld emptyDb emptyBody =
     Inr (jsonResponse 400
            [(''success'', JBool False),
             (''errors'', jsonErrors [js ''Name must be a string.'', js ''Email is required.'',
                                      js ''Message must be a string.''])],
          emptyDb)
   \<and> scoreHandler exampleWorld emptyDb emptyBody =
     Inr (jsonResponse 400
            [(''success'', JBool False), (''errors'', jsonErrors [js ''Score is required.''])],
          emptyDb)
   \<and> sendMailHandler exampleWorld emptyDb emptyBody =
     Inr (jsonResponse 400
            [(''success'', JBool False),
             (''errors'', jsonErrors [js ''Recipient email is required.'',
                                      js ''Subject must be a string.'',
                                      js ''Message body must be a string.''])],
          emptyDb)
   \<and> jsonField (fst (projr (registerHandler exampleWorld emptyDb registrationBody))) ''id''
       = Some (jsonId 1)
   \<and> jsonField (fst (projr (contactHandler exampleWorld emptyDb (contactBody ''It's <ok>!''))))
        ''id'' = Some (jsonId 1)
   \<and> jsonField (fst (projr (scoreHandler exampleWorld emptyDb scoreBody))) ''id''
       = Some (jsonId 1)
   \<and> jsonField (fst (projr (sendMailHandler exampleWorld emptyDb
                               (mailBody (JStr (js ''ann@example.org'')))))) ''id''
       = Some (jsonId 1)"
proof -
  let ?r1 = "jsonResponse 200
            [(''success'', JBool True), (''id'', jsonId 1),
             (''message'', JStr (js ''Registration successful.''))]"
  let ?d1 = "emptyDb\<lparr>registrations :=
            [\<lparr>re_name = js ''Ann &lt;Lee&gt;'', re_email = js ''ann@example.org'',
              re_address = js ''1 Main St &amp; Co'', re_contact = js ''555-0100'',
              re_receivedAt = js ''2024-05-01T10:00:00.000Z''\<rparr>]\<rparr>"
  let ?r2 = "jsonResponse 200
            [(''success'', JBool True), (''id'', jsonId 1),
             (''message'', JStr (js ''Contact form submitted successfully.''))]"
  let ?d2 = "emptyDb\<lparr>contacts :=
            [\<lparr>ce_name = js ''Ann'', ce_email = js ''ann@example.org'',
              ce_message = js ''It&#x27;s &lt;ok&gt;!'',
              ce_receivedAt = js ''2024-05-01T10:00:00.000Z''\<rparr>]\<rparr>"
  let ?r3 = "jsonResponse 200
              [(''success'', JBool True), (''id'', jsonId 1),
               (''message'', JStr (js ''Score recorded successfully.''))]"
  let ?d3 = "emptyDb\<lparr>scores := [\<lparr>se_score = Finite 3, se_details = None,
                                  se_receivedAt = js ''2024-05-01T10:00:00.000Z''\<rparr>]\<rparr>"
  let ?r4 = "jsonResponse 200
            [(''success'', JBool True), (''id'', jsonId 1), (''sent'', JBool False),
             (''message'', JStr (js ''No SMTP configured; mail recorded.''))]"
  let ?d4 = "emptyDb\<lparr>mails :=
            [\<lparr>mr_recipients = js ''ann@example.org'', mr_subject = js ''Seminar &lt;1&gt;'',
              mr_body = js ''See you &amp; yours.'', mr_status = js ''mocked'',
              mr_sentAt = None, mr_error = None\<rparr>]\<rparr>"
  have f: "jsonField ?r1 ''success'' = Some (JBool True)"
    "jsonField ?r2 ''success'' = Some (JBool True)"
    "jsonField ?r3 ''success'' = Some (JBool True)"
    "jsonField ?r4 ''success'' = Some (JBool True)"
    by (simp_all add: jsonResponse_sel)
  have n: "length (registrations ?d1) = 1" "length (contacts ?d2) = 1"
    "length (scores ?d3) = 1" "length (mails ?d4) = 1"
    by simp_all
  have sel: "fst (projr (registerHandler exampleWorld emptyDb registrationBody)) = ?r1"
    "fst (projr (contactHandler exampleWorld emptyDb (contactBody ''It's <ok>!''))) = ?r2"
    "fst (projr (scoreHandler exampleWorld emptyDb scoreBody)) = ?r3"
    "fst (projr (sendMailHandler exampleWorld emptyDb
                   (mailBody (JStr (js ''ann@example.org''))))) = ?r4"
    unfolding register_example contact_example score_example mail_example_mocked by simp_all
  note i1 = post_handlers_response_shape[of emptyBody _ exampleWorld emptyDb,
      THEN conjunct1, THEN mp, OF invalid_examples(1)]
  note i2 = post_handlers_response_shape[of emptyBody _ exampleWorld emptyDb,
      THEN conjunct2, THEN conjunct1, THEN mp, OF invalid_examples(2)]
  note i3 = post_handlers_response_shape[of emptyBody _ exampleWorld emptyDb,
      THEN conjunct2, THEN conjunct2, THEN conjunct1, THEN mp, OF invalid_examples(3)]
  note i4 = post_handlers_response_shape[of emptyBody _ exampleWorld emptyDb,
      THEN conjunct2, THEN conjunct2, THEN conjunct2, THEN conjunct1, THEN mp,
      OF invalid_examples(4)]
  note s1 = post_handlers_response_shape[of registrationBody _ exampleWorld emptyDb ?r1 ?d1,
      THEN conjunct2, THEN conjunct2, THEN conjunct2, THEN conjunct2, THEN conjunct2,
      THEN conjunct2, THEN conjunct1, THEN mp, OF conjI[OF register_example f(1)],
      THEN conjunct2, THEN conjunct2, THEN conjunct1, unfolded n, folded sel]
  note s2 = post_handlers_response_shape[of \<open>contactBody ''It's <ok>!''\<close> _ exampleWorld
      emptyDb ?r2 ?d2,
      THEN conjunct2, THEN conjunct2, THEN conjunct2, THEN conjunct2, THEN conjunct2,
      THEN conjunct2, THEN conjunct2, THEN conjunct1, THEN mp,
      OF conjI[OF contact_example f(2)],
      THEN conjunct2, THEN conjunct2, THEN conjunct1, unfolded n, folded sel]
  note s3 = post_handlers_response_shape[of scoreBody _ exampleWorld emptyDb ?r3 ?d3,
      THEN conjunct2, THEN conjunct2, THEN conjunct2, THEN conjunct2, THEN conjunct2,
      THEN conjunct2, THEN conjunct2, THEN conjunct2, THEN conjunct1, THEN mp,
      OF conjI[OF score_example f(3)],
      THEN conjunct2, THEN conjunct2, THEN conjunct1, unfolded n, folded sel]
  note s4 = post_handlers_response_shape[of "mailBody (JStr (js ''ann@example.org''))" _
      exampleWorld emptyDb ?r4 ?d4,
      THEN conjunct2, THEN conjunct2, THEN conjunct2, THEN conjunct2, THEN conjunct2,
      THEN conjunct2, THEN conjunct2, THEN conjunct2, THEN conjunct2, THEN mp,
      OF conjI[OF mail_example_mocked f(4)],
      THEN conjunct2, THEN conjunct2, THEN conjunct1, unfolded n, folded sel]
  show ?thesis
    by (intro conjI i1 i2 i3 i4 s1 s2 s3 s4)
qed

text \<open>
  C9 as stated asks for a \<open>message\<close> in the response to a validation failure. The
  registration handler on an empty body answers \<open>{success: false, errors: [...]}\<close>,
  without a \<open>message\<close> property.
\<close>

theorem validation_failure_without_message:
  "registerHandler exampleWorld emptyDb emptyBody =
     Inr (jsonResponse 400
            [(''success'', JBool False),
             (''errors'', JArr [JStr (js ''Name must be a string.''),
                                JStr (js ''Email is required.''),
                                JStr (js ''Contact must be a string.'')])],
          emptyDb)
   \<and> jsonField (fst (projr (registerHandler exampleWorld emptyDb emptyBody))) ''message'' = None"
  by code_simp

end
